theory Spec2Isabelle
  imports Main
begin

section \<open>Values exchanged with the identity provider\<close>

text \<open>
  The types \<open>User\<close>, \<open>Session\<close> and \<open>AuthError\<close> come from the provider's SDK. The
  code treats them as opaque: it stores a session, reads \<open>session.user\<close>, and reads or
  builds the \<open>name\<close> and \<open>message\<close> of an error. A session always carries a user.
  Strings are \<open>char list\<close>s over an eight-bit alphabet (Latin-1).
\<close>

datatype User = User (user_id: string) (user_email: string)

datatype Session = Session (access_token: string) (session_user: User)

record AuthError =
  name :: string
  message :: string

text \<open>A value thrown by a call, and the two ways a promise settles.\<close>

datatype thrown = Thrown string

datatype 'a settled = Fulfilled 'a | Rejected thrown

text \<open>What \<open>signUp\<close> and \<open>signInWithPassword\<close> resolve with: \<open>{ data: { user, session }, error }\<close>.\<close>

record AuthData =
  data_user :: "User option"
  data_session :: "Session option"

record AuthResponse =
  data :: AuthData
  error :: "AuthError option"

text \<open>What \<open>getSession\<close> resolves with: \<open>{ data: { session }, error }\<close>.\<close>

record SessionResponse =
  session_data :: "Session option"
  session_error :: "AuthError option"

text \<open>The arguments of the two credential calls.\<close>

record Credentials =
  cred_email :: string
  cred_password :: string

record UserMetadata =
  first_name :: string
  last_name :: string
  full_name :: string

record SignUpOptions =
  options_data :: UserMetadata
  emailRedirectTo :: string

record SignUpCredentials =
  signup_email :: string
  signup_password :: string
  options :: SignUpOptions

text \<open>
  The SDK client \<open>supabase.auth\<close> and the browser's \<open>window\<close> are outside the
  repository. The environment of one call gives, for each SDK method, the way the
  returned promise settles on given arguments, and the value of
  \<open>window.location.origin\<close>; the theorems below hold for every environment.
  \<open>signOut\<close> resolves with \<open>{ error }\<close>.
\<close>

record env =
  signUp :: "SignUpCredentials \<Rightarrow> AuthResponse settled"
  signInWithPassword :: "Credentials \<Rightarrow> AuthResponse settled"
  signOut :: "unit \<Rightarrow> AuthError option settled"
  getSession :: "unit \<Rightarrow> SessionResponse settled"
  location_origin :: string

section \<open>The authentication service (authService.tsx)\<close>

text \<open>
  \<open>RegisterResponse\<close> and \<open>LoginResponse\<close> are the same interface
  \<open>{ user, session, error }\<close>.
\<close>

record LoginResponse =
  resp_user :: "User option"
  resp_session :: "Session option"
  resp_error :: "AuthError option"

type_synonym RegisterResponse = LoginResponse

subsection \<open>String helpers of the language\<close>

text \<open>
  \<open>x || ''\<close> on an optional string: \<open>undefined\<close> and the empty string are falsy, every
  other string is kept.
\<close>

definition or_empty :: "string option \<Rightarrow> string" where
  "or_empty x = (case x of None \<Rightarrow> [] | Some s \<Rightarrow> (if s = [] then [] else s))"

text \<open>
  \<open>String.prototype.trim\<close> removes white space and line terminators from both ends.
  Within the eight-bit alphabet these are TAB, LF, VT, FF, CR, SPACE and NBSP.
\<close>

definition is_ws :: "char \<Rightarrow> bool" where
  "is_ws c = (c = CHR 0x09 \<or> c = CHR 0x0A \<or> c = CHR 0x0B \<or> c = CHR 0x0C \<or>
              c = CHR 0x0D \<or> c = CHR 0x20 \<or> c = CHR 0xA0)"

definition trimStart :: "string \<Rightarrow> string" where
  "trimStart s = dropWhile is_ws s"

definition trimEnd :: "string \<Rightarrow> string" where
  "trimEnd s = rev (dropWhile is_ws (rev s))"

definition trim :: "string \<Rightarrow> string" where
  "trim s = trimEnd (trimStart s)"

subsection \<open>registerUser\<close>

text \<open>
  The object literal passed to \<open>signUp\<close>. \<open>origin\<close> is \<open>window.location.origin\<close>;
  the template literal joins the two names with one space.
\<close>

definition signUp_args ::
  "string \<Rightarrow> string \<Rightarrow> string \<Rightarrow> string option \<Rightarrow> string option \<Rightarrow> SignUpCredentials" where
  "signUp_args origin email password firstName lastName =
     \<lparr>signup_email = email,
      signup_password = password,
      options =
        \<lparr>options_data =
           \<lparr>first_name = or_empty firstName,
            last_name = or_empty lastName,
            full_name = trim (or_empty firstName @ '' '' @ or_empty lastName)\<rparr>,
         emailRedirectTo = origin @ ''/login''\<rparr>\<rparr>"

definition registerUser_unexpected :: AuthError where
  "registerUser_unexpected =
     \<lparr>name = ''UnexpectedError'',
      message = ''Ocurri'' @ [CHR 0xF3] @ '' un error inesperado al registrar el usuario''\<rparr>"

text \<open>
  \<open>try { const { data, error } = await signUp(...); return {...} } catch { return {...} }\<close>:
  a rejected call enters the \<open>catch\<close> branch, which logs and returns the fixed error.
\<close>

definition registerUser ::
  "env \<Rightarrow> string \<Rightarrow> string \<Rightarrow> string option \<Rightarrow> string option \<Rightarrow> RegisterResponse settled" where
  "registerUser p email password firstName lastName =
     (case signUp p (signUp_args (location_origin p) email password firstName lastName) of
        Fulfilled r \<Rightarrow>
          Fulfilled \<lparr>resp_user = data_user (data r),
                     resp_session = data_session (data r),
                     resp_error = error r\<rparr>
      | Rejected e \<Rightarrow>
          Fulfilled \<lparr>resp_user = None,
                     resp_session = None,
                     resp_error = Some registerUser_unexpected\<rparr>)"

subsection \<open>loginUser\<close>

definition loginUser_unexpected :: AuthError where
  "loginUser_unexpected =
     \<lparr>name = ''UnexpectedError'',
      message = ''Ocurri'' @ [CHR 0xF3] @ '' un error inesperado al iniciar sesi'' @ [CHR 0xF3] @ ''n''\<rparr>"

definition loginUser :: "env \<Rightarrow> string \<Rightarrow> string \<Rightarrow> LoginResponse settled" where
  "loginUser p email password =
     (case signInWithPassword p \<lparr>cred_email = email, cred_password = password\<rparr> of
        Fulfilled r \<Rightarrow>
          Fulfilled \<lparr>resp_user = data_user (data r),
                     resp_session = data_session (data r),
                     resp_error = error r\<rparr>
      | Rejected e \<Rightarrow>
          Fulfilled \<lparr>resp_user = None,
                     resp_session = None,
                     resp_error = Some loginUser_unexpected\<rparr>)"

subsection \<open>logoutUser\<close>

definition logoutUser_unexpected :: AuthError where
  "logoutUser_unexpected =
     \<lparr>name = ''UnexpectedError'',
      message = ''Ocurri'' @ [CHR 0xF3] @ '' un error inesperado al cerrar sesi'' @ [CHR 0xF3] @ ''n''\<rparr>"

text \<open>The result is \<open>{ error }\<close>: it has no user or session field.\<close>

definition logoutUser :: "env \<Rightarrow> AuthError option settled" where
  "logoutUser p =
     (case signOut p () of
        Fulfilled err \<Rightarrow> Fulfilled err
      | Rejected e \<Rightarrow> Fulfilled (Some logoutUser_unexpected))"

subsection \<open>getCurrentSession\<close>

text \<open>
  The service's own reader of the current session: a reported error and a rejected call
  both give \<open>null\<close>.
\<close>

definition getCurrentSession :: "env \<Rightarrow> Session option settled" where
  "getCurrentSession p =
     (case getSession p () of
        Fulfilled r \<Rightarrow>
          (if session_error r \<noteq> None then Fulfilled None else Fulfilled (session_data r))
      | Rejected e \<Rightarrow> Fulfilled None)"

section \<open>The authentication context (AuthContext.tsx)\<close>

subsection \<open>The three state cells and their setters\<close>

record auth_state =
  user :: "User option"
  session :: "Session option"
  isLoading :: bool

text \<open>The initial values given to \<open>useState\<close>.\<close>

definition initial_state :: auth_state where
  "initial_state = \<lparr>user = None, session = None, isLoading = True\<rparr>"

definition setUser :: "User option \<Rightarrow> auth_state \<Rightarrow> auth_state" where
  "setUser u s = s\<lparr>user := u\<rparr>"

definition setSession :: "Session option \<Rightarrow> auth_state \<Rightarrow> auth_state" where
  "setSession x s = s\<lparr>session := x\<rparr>"

definition setIsLoading :: "bool \<Rightarrow> auth_state \<Rightarrow> auth_state" where
  "setIsLoading b s = s\<lparr>isLoading := b\<rparr>"

text \<open>\<open>session?.user ?? null\<close>.\<close>

definition optional_user :: "Session option \<Rightarrow> User option" where
  "optional_user x = (case x of None \<Rightarrow> None | Some y \<Rightarrow> Some (session_user y))"

text \<open>
  The three setter calls of \<open>updateAuthState\<close>, in the order of the source. They run in
  one callback, so the state is observed before the first or after the last of them.
\<close>

definition updateAuthState :: "Session option \<Rightarrow> auth_state \<Rightarrow> auth_state" where
  "updateAuthState x s = setIsLoading False (setUser (optional_user x) (setSession x s))"

subsection \<open>The context value\<close>

text \<open>\<open>!!x\<close> on an object reference or \<open>null\<close>: every object is truthy.\<close>

definition to_boolean :: "'a option \<Rightarrow> bool" where
  "to_boolean x = (case x of None \<Rightarrow> False | Some y \<Rightarrow> True)"

record AuthContextType =
  ctx_user :: "User option"
  ctx_session :: "Session option"
  isAuthenticated :: bool
  ctx_isLoading :: bool

definition context_value :: "auth_state \<Rightarrow> AuthContextType" where
  "context_value s =
     \<lparr>ctx_user = user s,
      ctx_session = session s,
      isAuthenticated = to_boolean (user s),
      ctx_isLoading = isLoading s\<rparr>"

subsection \<open>login, register and logout\<close>

text \<open>
  Each operation is an \<open>async\<close> function with one \<open>await\<close>. Its first part runs when it
  is called, up to the \<open>await\<close>; its second part runs when the awaited promise has
  settled. A rejected awaited promise would skip the rest of the body and reject the
  operation's own promise. \<open>login\<close> and \<open>register\<close> return \<open>{ error }\<close>; \<open>logout\<close> has
  no \<open>return\<close> and resolves with \<open>undefined\<close>.
\<close>

datatype op_value = ErrorResult "AuthError option" | Undefined

definition login_begin :: "auth_state \<Rightarrow> auth_state" where
  "login_begin s = setIsLoading True s"

definition login_resume ::
  "LoginResponse settled \<Rightarrow> auth_state \<Rightarrow> auth_state \<times> op_value settled" where
  "login_resume r s =
     (case r of
        Rejected e \<Rightarrow> (s, Rejected e)
      | Fulfilled resp \<Rightarrow> (setIsLoading False s, Fulfilled (ErrorResult (resp_error resp))))"

definition register_begin :: "auth_state \<Rightarrow> auth_state" where
  "register_begin s = setIsLoading True s"

definition register_resume ::
  "RegisterResponse settled \<Rightarrow> auth_state \<Rightarrow> auth_state \<times> op_value settled" where
  "register_resume r s =
     (case r of
        Rejected e \<Rightarrow> (s, Rejected e)
      | Fulfilled resp \<Rightarrow> (setIsLoading False s, Fulfilled (ErrorResult (resp_error resp))))"

definition logout_begin :: "auth_state \<Rightarrow> auth_state" where
  "logout_begin s = setIsLoading True s"

definition logout_resume ::
  "AuthError option settled \<Rightarrow> auth_state \<Rightarrow> auth_state \<times> op_value settled" where
  "logout_resume r s =
     (case r of
        Rejected e \<Rightarrow> (s, Rejected e)
      | Fulfilled err \<Rightarrow> (setIsLoading False s, Fulfilled Undefined))"

text \<open>An operation run with nothing else happening between its two parts.\<close>

definition login :: "env \<Rightarrow> string \<Rightarrow> string \<Rightarrow> auth_state \<Rightarrow> auth_state \<times> op_value settled" where
  "login p email password s = login_resume (loginUser p email password) (login_begin s)"

definition register ::
  "env \<Rightarrow> string \<Rightarrow> string \<Rightarrow> string option \<Rightarrow> string option \<Rightarrow> auth_state
     \<Rightarrow> auth_state \<times> op_value settled" where
  "register p email password firstName lastName s =
     register_resume (registerUser p email password firstName lastName) (register_begin s)"

definition logout :: "env \<Rightarrow> auth_state \<Rightarrow> auth_state \<times> op_value settled" where
  "logout p s = logout_resume (logoutUser p) (logout_begin s)"

subsection \<open>The provider component as an event system\<close>

text \<open>
  Everything runs on one event loop, so the component's history is a sequence of
  callbacks. A configuration holds the state cells, the operation calls that are waiting
  for the SDK, whether the initial \<open>getSession\<close> promise is still unsettled, whether the
  change-event handler is registered with the SDK, and two counters: the calls of
  \<open>updateAuthState\<close> and the calls of \<open>subscription.unsubscribe\<close> so far.
\<close>

datatype action =
    Login string string
  | Register string string "string option" "string option"
  | Logout

datatype lifecycle = Rendered | Mounted | Unmounted

record config =
  auth :: auth_state
  pending :: "action list"
  fetching :: bool
  subscribed :: bool
  updates :: nat
  unsubscribe_calls :: nat
  phase :: lifecycle

definition initial_config :: config where
  "initial_config =
     \<lparr>auth = initial_state, pending = [], fetching = False, subscribed = False,
      updates = 0, unsubscribe_calls = 0, phase = Rendered\<rparr>"

text \<open>
  The body of the effect: it starts \<open>getSession\<close> and registers the handler. The cleanup
  it returns calls \<open>subscription.unsubscribe()\<close>, after which the SDK holds no handler.
\<close>

definition effect :: "config \<Rightarrow> config" where
  "effect c = c\<lparr>fetching := True, subscribed := True\<rparr>"

definition cleanup :: "config \<Rightarrow> config" where
  "cleanup c = c\<lparr>subscribed := False, unsubscribe_calls := Suc (unsubscribe_calls c)\<rparr>"

text \<open>Both callbacks of the effect call \<open>updateAuthState\<close> with the session they receive.\<close>

definition apply_update :: "Session option \<Rightarrow> config \<Rightarrow> config" where
  "apply_update x c = c\<lparr>auth := updateAuthState x (auth c), updates := Suc (updates c)\<rparr>"

text \<open>
  \<open>getSession().then(({ data: { session } }) => updateAuthState(session))\<close>: there is one
  callback, for fulfilment. It reads \<open>data.session\<close> only. A rejection runs no callback.
\<close>

definition fetch_settled :: "SessionResponse settled \<Rightarrow> config \<Rightarrow> config" where
  "fetch_settled r c =
     (case r of
        Fulfilled resp \<Rightarrow> apply_update (session_data resp) (c\<lparr>fetching := False\<rparr>)
      | Rejected e \<Rightarrow> c\<lparr>fetching := False\<rparr>)"

fun begin_action :: "action \<Rightarrow> auth_state \<Rightarrow> auth_state" where
  "begin_action (Login email password) s = login_begin s"
| "begin_action (Register email password firstName lastName) s = register_begin s"
| "begin_action Logout s = logout_begin s"

fun resume_action :: "env \<Rightarrow> action \<Rightarrow> auth_state \<Rightarrow> auth_state \<times> op_value settled" where
  "resume_action p (Login email password) s = login_resume (loginUser p email password) s"
| "resume_action p (Register email password firstName lastName) s =
     register_resume (registerUser p email password firstName lastName) s"
| "resume_action p Logout s = logout_resume (logoutUser p) s"

text \<open>
  The events. \<open>Mount\<close> and \<open>Unmount\<close> are the framework running the effect and its
  cleanup, once each. \<open>FetchSettled\<close> is the initial \<open>getSession\<close> promise settling.
  \<open>AuthStateChange\<close> is the SDK emitting a change-event, which reaches the handler only
  while it is registered. \<open>Call\<close> is a consumer calling an operation. \<open>Settle i\<close> is the
  SDK call of the \<open>i\<close>-th waiting operation settling, so that its second part runs.
\<close>

datatype event =
    Mount
  | FetchSettled env
  | AuthStateChange "Session option"
  | Call action
  | Settle nat env
  | Unmount

fun step :: "event \<Rightarrow> config \<Rightarrow> config" where
  "step Mount c = (if phase c = Rendered then (effect c)\<lparr>phase := Mounted\<rparr> else c)"
| "step (FetchSettled p) c = (if fetching c then fetch_settled (getSession p ()) c else c)"
| "step (AuthStateChange x) c = (if subscribed c then apply_update x c else c)"
| "step (Call a) c = c\<lparr>auth := begin_action a (auth c), pending := pending c @ [a]\<rparr>"
| "step (Settle i p) c =
     (if i < length (pending c)
      then c\<lparr>auth := fst (resume_action p (pending c ! i) (auth c)),
             pending := take i (pending c) @ drop (Suc i) (pending c)\<rparr>
      else c)"
| "step Unmount c = (if phase c = Mounted then (cleanup c)\<lparr>phase := Unmounted\<rparr> else c)"

primrec run :: "event list \<Rightarrow> config \<Rightarrow> config" where
  "run [] c = c"
| "run (e # es) c = run es (step e c)"

section \<open>Example environments\<close>

text \<open>
  Three environments used to evaluate the model: one in which every SDK call succeeds
  for the user \<open>alice\<close>, one in which every call resolves with a reported error, and
  one in which every call throws.
\<close>

definition alice :: User where
  "alice = User ''u-1'' ''a@b.com''"

definition alice_session :: Session where
  "alice_session = Session ''token-1'' alice"

definition invalid_credentials :: AuthError where
  "invalid_credentials = \<lparr>name = ''AuthApiError'', message = ''Invalid login credentials''\<rparr>"

definition env_ok :: env where
  "env_ok =
     \<lparr>signUp = (\<lambda>a. Fulfilled \<lparr>data = \<lparr>data_user = Some alice, data_session = Some alice_session\<rparr>,
                                   error = None\<rparr>),
      signInWithPassword =
        (\<lambda>a. Fulfilled \<lparr>data = \<lparr>data_user = Some alice, data_session = Some alice_session\<rparr>,
                          error = None\<rparr>),
      signOut = (\<lambda>u. Fulfilled None),
      getSession = (\<lambda>u. Fulfilled \<lparr>session_data = Some alice_session, session_error = None\<rparr>),
      location_origin = ''http://localhost:5173''\<rparr>"

definition env_error :: env where
  "env_error =
     \<lparr>signUp = (\<lambda>a. Fulfilled \<lparr>data = \<lparr>data_user = None, data_session = None\<rparr>,
                                   error = Some invalid_credentials\<rparr>),
      signInWithPassword =
        (\<lambda>a. Fulfilled \<lparr>data = \<lparr>data_user = None, data_session = None\<rparr>,
                          error = Some invalid_credentials\<rparr>),
      signOut = (\<lambda>u. Fulfilled (Some invalid_credentials)),
      getSession = (\<lambda>u. Fulfilled \<lparr>session_data = None, session_error = Some invalid_credentials\<rparr>),
      location_origin = ''http://localhost:5173''\<rparr>"

definition env_throws :: env where
  "env_throws =
     \<lparr>signUp = (\<lambda>a. Rejected (Thrown ''Failed to fetch'')),
      signInWithPassword = (\<lambda>a. Rejected (Thrown ''Failed to fetch'')),
      signOut = (\<lambda>u. Rejected (Thrown ''Failed to fetch'')),
      getSession = (\<lambda>u. Rejected (Thrown ''Failed to fetch'')),
      location_origin = ''http://localhost:5173''\<rparr>"

text \<open>
  An SDK whose \<open>signUp\<close> echoes the metadata it receives: the user it returns has the
  received \<open>first_name\<close> as its id and the received \<open>full_name\<close> as its email, and the
  session's token is the received \<open>last_name\<close>.
\<close>

definition echo_user :: "SignUpCredentials \<Rightarrow> User" where
  "echo_user a =
     User (first_name (options_data (options a))) (full_name (options_data (options a)))"

definition env_echo :: env where
  "env_echo =
     \<lparr>signUp =
        (\<lambda>a. Fulfilled
           \<lparr>data = \<lparr>data_user = Some (echo_user a),
                    data_session =
                      Some (Session (last_name (options_data (options a))) (echo_user a))\<rparr>,
            error = None\<rparr>),
      signInWithPassword = (\<lambda>a. Rejected (Thrown ''unused'')),
      signOut = (\<lambda>u. Rejected (Thrown ''unused'')),
      getSession = (\<lambda>u. Rejected (Thrown ''unused'')),
      location_origin = ''http://localhost:5173''\<rparr>"

section \<open>Auxiliary facts\<close>

lemmas state_defs =
  initial_state_def setUser_def setSession_def setIsLoading_def optional_user_def
  updateAuthState_def to_boolean_def context_value_def

lemmas operation_defs =
  login_begin_def login_resume_def register_begin_def register_resume_def
  logout_begin_def logout_resume_def login_def register_def logout_def
  loginUser_def registerUser_def logoutUser_def

lemmas system_defs =
  initial_config_def effect_def cleanup_def apply_update_def fetch_settled_def

lemmas example_defs =
  alice_def alice_session_def invalid_credentials_def env_ok_def env_error_def env_throws_def

subsection \<open>The service functions always resolve\<close>

lemma loginUser_fulfilled:
  "\<exists>r. loginUser p email password = Fulfilled r"
  by (simp add: loginUser_def split: settled.split)

lemma registerUser_fulfilled:
  "\<exists>r. registerUser p email password firstName lastName = Fulfilled r"
  by (simp add: registerUser_def split: settled.split)

lemma logoutUser_fulfilled:
  "\<exists>r. logoutUser p = Fulfilled r"
  by (simp add: logoutUser_def split: settled.split)

subsection \<open>What the two parts of an operation write\<close>

lemma begin_action_frame:
  "begin_action a s = s\<lparr>isLoading := True\<rparr>"
  by (cases a) (simp_all add: login_begin_def register_begin_def logout_begin_def setIsLoading_def)

lemma resume_action_frame:
  "fst (resume_action p a s) = s\<lparr>isLoading := False\<rparr>"
proof (cases a)
  case (Login email password)
  obtain r where "loginUser p email password = Fulfilled r"
    using loginUser_fulfilled by blast
  with Login show ?thesis
    by (simp add: login_resume_def setIsLoading_def)
next
  case (Register email password firstName lastName)
  obtain r where "registerUser p email password firstName lastName = Fulfilled r"
    using registerUser_fulfilled by blast
  with Register show ?thesis
    by (simp add: register_resume_def setIsLoading_def)
next
  case Logout
  obtain r where "logoutUser p = Fulfilled r"
    using logoutUser_fulfilled by blast
  with Logout show ?thesis
    by (simp add: logout_resume_def setIsLoading_def)
qed

lemma updateAuthState_fields:
  "updateAuthState x s = \<lparr>user = optional_user x, session = x, isLoading = False\<rparr>"
  by (simp add: updateAuthState_def setIsLoading_def setUser_def setSession_def)

lemma step_operation_fields:
  "session (auth (step (Call a) c)) = session (auth c)"
  "user (auth (step (Call a) c)) = user (auth c)"
  "session (auth (step (Settle i p) c)) = session (auth c)"
  "user (auth (step (Settle i p) c)) = user (auth c)"
  by (simp_all add: begin_action_frame resume_action_frame)

subsection \<open>Runs\<close>

lemma run_append:
  "run (xs @ ys) c = run ys (run xs c)"
  by (induction xs arbitrary: c) simp_all

lemma step_writes_together:
  "(user (auth (step e c)) = user (auth c) \<and> session (auth (step e c)) = session (auth c))
     \<or> (\<exists>x. auth (step e c) = updateAuthState x (auth c))"
proof (cases e)
  case (FetchSettled p)
  then show ?thesis
    by (cases "getSession p ()") (auto simp: fetch_settled_def apply_update_def)
next
  case (AuthStateChange x)
  then show ?thesis by (auto simp: apply_update_def)
next
  case (Call a)
  then show ?thesis by (simp add: begin_action_frame)
next
  case (Settle i p)
  then show ?thesis by (simp add: resume_action_frame)
qed (simp_all add: effect_def cleanup_def)

lemma step_consistent:
  assumes "user (auth c) = optional_user (session (auth c))"
  shows "user (auth (step e c)) = optional_user (session (auth (step e c)))"
proof (cases e)
  case (FetchSettled p)
  with assms show ?thesis
    by (cases "getSession p ()")
       (simp_all add: fetch_settled_def apply_update_def updateAuthState_fields)
next
  case (AuthStateChange x)
  with assms show ?thesis by (simp add: apply_update_def updateAuthState_fields)
next
  case (Call a)
  with assms show ?thesis by (simp add: begin_action_frame)
next
  case (Settle i p)
  with assms show ?thesis by (simp add: resume_action_frame)
qed (use assms in \<open>simp_all add: effect_def cleanup_def\<close>)

lemma run_consistent:
  "user (auth c) = optional_user (session (auth c)) \<Longrightarrow>
   user (auth (run tr c)) = optional_user (session (auth (run tr c)))"
  by (induction tr arbitrary: c) (simp_all add: step_consistent)

lemma step_lifecycle_fields:
  assumes "e \<noteq> Mount" and "e \<noteq> Unmount"
  shows "phase (step e c) = phase c" and "subscribed (step e c) = subscribed c"
    and "unsubscribe_calls (step e c) = unsubscribe_calls c"
  using assms
  by (cases e; simp add: apply_update_def fetch_settled_def split: settled.split)+

lemma step_teardown:
  assumes "unsubscribe_calls c = (if phase c = Unmounted then 1 else 0)"
    and "phase c \<noteq> Mounted \<longrightarrow> \<not> subscribed c"
  shows "unsubscribe_calls (step e c) = (if phase (step e c) = Unmounted then 1 else 0)
     \<and> (phase (step e c) \<noteq> Mounted \<longrightarrow> \<not> subscribed (step e c))"
proof -
  consider "e = Mount" | "e = Unmount" | "e \<noteq> Mount" "e \<noteq> Unmount"
    by blast
  then show ?thesis
  proof cases
    case 1
    with assms show ?thesis by (simp add: effect_def)
  next
    case 2
    with assms show ?thesis by (simp add: cleanup_def)
  next
    case 3
    then have "phase (step e c) = phase c" and "subscribed (step e c) = subscribed c"
      and "unsubscribe_calls (step e c) = unsubscribe_calls c"
      by (rule step_lifecycle_fields)+
    with assms show ?thesis by (simp only:) 
  qed
qed

lemma run_teardown:
  "unsubscribe_calls c = (if phase c = Unmounted then 1 else 0) \<Longrightarrow>
   phase c \<noteq> Mounted \<longrightarrow> \<not> subscribed c \<Longrightarrow>
   unsubscribe_calls (run tr c) = (if phase (run tr c) = Unmounted then 1 else 0)
     \<and> (phase (run tr c) \<noteq> Mounted \<longrightarrow> \<not> subscribed (run tr c))"
proof (induction tr arbitrary: c)
  case Nil
  then show ?case by simp
next
  case (Cons e tr)
  have s: "unsubscribe_calls (step e c) = (if phase (step e c) = Unmounted then 1 else 0)
     \<and> (phase (step e c) \<noteq> Mounted \<longrightarrow> \<not> subscribed (step e c))"
    using Cons.prems by (rule step_teardown)
  have "unsubscribe_calls (run tr (step e c)) = (if phase (run tr (step e c)) = Unmounted then 1 else 0)
     \<and> (phase (run tr (step e c)) \<noteq> Mounted \<longrightarrow> \<not> subscribed (run tr (step e c)))"
    using s by (intro Cons.IH) simp_all
  then show ?case by simp
qed

subsection \<open>Runs of change-events\<close>

lemma changes_ignored:
  "\<not> subscribed c \<Longrightarrow> run (map AuthStateChange xs) c = c"
  by (induction xs) simp_all

lemma changes_pending:
  "pending (run (map AuthStateChange xs) c) = pending c"
  by (induction xs arbitrary: c) (simp_all add: apply_update_def)



lemma changes_null:
  "session (auth c) = None \<Longrightarrow>
   session (auth (run (map AuthStateChange (replicate n None)) c)) = None"
proof (induction n arbitrary: c)
  case 0
  then show ?case by simp
next
  case (Suc n)
  have "session (auth (step (AuthStateChange None) c)) = None"
    using Suc.prems by (simp add: apply_update_def updateAuthState_fields)
  then have "session (auth (run (map AuthStateChange (replicate n None))
                              (step (AuthStateChange None) c))) = None"
    by (rule Suc.IH)
  then show ?case by simp
qed


subsection \<open>Trimming\<close>

lemma trimEnd_prefix:
  "trimEnd t @ rev (takeWhile is_ws (rev t)) = t"
proof -
  have "rev (takeWhile is_ws (rev t) @ dropWhile is_ws (rev t)) = t"
    by simp
  then show ?thesis
    by (simp only: trimEnd_def rev_append)
qed

lemma trim_ends:
  assumes "trim s \<noteq> []"
  shows "\<not> is_ws (hd (trim s))" and "\<not> is_ws (last (trim s))"
proof -
  let ?t = "trimStart s"
  from assms have ne: "dropWhile is_ws (rev ?t) \<noteq> []"
    by (simp add: trim_def trimEnd_def)
  then have "\<not> is_ws (hd (dropWhile is_ws (rev ?t)))"
    by (rule hd_dropWhile)
  moreover have "last (trim s) = hd (dropWhile is_ws (rev ?t))"
    using ne by (simp add: trim_def trimEnd_def last_rev)
  ultimately show "\<not> is_ws (last (trim s))" by simp
  from assms have tne: "?t \<noteq> []"
    by (auto simp: trim_def trimEnd_def)
  then have "\<not> is_ws (hd ?t)"
    unfolding trimStart_def by (rule hd_dropWhile)
  moreover have "hd ?t = hd (trimEnd ?t)"
  proof -
    have "trimEnd ?t \<noteq> []" using assms by (simp add: trim_def)
    then have "hd (trimEnd ?t @ rev (takeWhile is_ws (rev ?t))) = hd (trimEnd ?t)"
      by simp
    then show ?thesis by (simp only: trimEnd_prefix)
  qed
  ultimately show "\<not> is_ws (hd (trim s))" by (simp add: trim_def)
qed

lemma trim_space_left:
  "trim ('' '' @ s) = trim s"
  by (simp add: trim_def trimStart_def is_ws_def)

lemma trim_space_right:
  "trim (s @ '' '') = trim s"
proof (cases "\<forall>x\<in>set s. is_ws x")
  case True
  then have a: "dropWhile is_ws (s @ '' '') = dropWhile is_ws '' ''"
    by (intro dropWhile_append2) simp
  from True have b: "dropWhile is_ws s = []"
    by (simp add: dropWhile_eq_Nil_conv)
  have "is_ws CHR '' ''"
    by (simp add: is_ws_def)
  then show ?thesis
    by (simp add: trim_def trimStart_def trimEnd_def a b)
next
  case False
  then obtain x where "x \<in> set s" and "\<not> is_ws x" by blast
  then have "dropWhile is_ws (s @ '' '') = dropWhile is_ws s @ '' ''"
    by (rule dropWhile_append1)
  moreover have "is_ws CHR '' ''"
    by (simp add: is_ws_def)
  ultimately show ?thesis
    by (simp add: trim_def trimStart_def trimEnd_def)
qed

lemma or_empty_cases:
  "or_empty x = (case x of None \<Rightarrow> [] | Some s \<Rightarrow> s)"
  by (simp add: or_empty_def split: option.split)

section \<open>Error handling of the service functions\<close>

text \<open>
  Claim C4. For every input of \<open>loginUser\<close>, \<open>registerUser\<close> and \<open>logoutUser\<close> and every
  behaviour of the SDK: the function resolves; when the SDK call resolves, its \<open>error\<close>
  (a structured error or \<open>null\<close>) is the result's error, unchanged; when the SDK call
  throws, the result has the error \<open>{ name: 'UnexpectedError', message }\<close> with the
  function's fixed message, and a \<open>null\<close> user and session where the result has these
  fields (the result of \<open>logoutUser\<close> is \<open>{ error }\<close> alone).
\<close>

theorem service_errors_one_shape:
  "(\<exists>resp. loginUser p email password = Fulfilled resp \<and>
      (case signInWithPassword p \<lparr>cred_email = email, cred_password = password\<rparr> of
         Fulfilled r \<Rightarrow> resp_error resp = error r
       | Rejected t \<Rightarrow>
           resp = \<lparr>resp_user = None, resp_session = None,
                   resp_error = Some \<lparr>name = ''UnexpectedError'',
                                      message = message loginUser_unexpected\<rparr>\<rparr>))
   \<and> (\<exists>resp. registerUser p email password firstName lastName = Fulfilled resp \<and>
      (case signUp p (signUp_args (location_origin p) email password firstName lastName) of
         Fulfilled r \<Rightarrow> resp_error resp = error r
       | Rejected t \<Rightarrow>
           resp = \<lparr>resp_user = None, resp_session = None,
                   resp_error = Some \<lparr>name = ''UnexpectedError'',
                                      message = message registerUser_unexpected\<rparr>\<rparr>))
   \<and> (\<exists>err. logoutUser p = Fulfilled err \<and>
      (case signOut p () of
         Fulfilled r \<Rightarrow> err = r
       | Rejected t \<Rightarrow>
           err = Some \<lparr>name = ''UnexpectedError'', message = message logoutUser_unexpected\<rparr>))"
proof (intro conjI)
  show "\<exists>resp. loginUser p email password = Fulfilled resp \<and>
      (case signInWithPassword p \<lparr>cred_email = email, cred_password = password\<rparr> of
         Fulfilled r \<Rightarrow> resp_error resp = error r
       | Rejected t \<Rightarrow>
           resp = \<lparr>resp_user = None, resp_session = None,
                   resp_error = Some \<lparr>name = ''UnexpectedError'',
                                      message = message loginUser_unexpected\<rparr>\<rparr>)"
    by (cases "signInWithPassword p \<lparr>cred_email = email, cred_password = password\<rparr>")
       (simp_all add: loginUser_def loginUser_unexpected_def)
  show "\<exists>resp. registerUser p email password firstName lastName = Fulfilled resp \<and>
      (case signUp p (signUp_args (location_origin p) email password firstName lastName) of
         Fulfilled r \<Rightarrow> resp_error resp = error r
       | Rejected t \<Rightarrow>
           resp = \<lparr>resp_user = None, resp_session = None,
                   resp_error = Some \<lparr>name = ''UnexpectedError'',
                                      message = message registerUser_unexpected\<rparr>\<rparr>)"
    by (cases "signUp p (signUp_args (location_origin p) email password firstName lastName)")
       (simp_all add: registerUser_def registerUser_unexpected_def)
  show "\<exists>err. logoutUser p = Fulfilled err \<and>
      (case signOut p () of
         Fulfilled r \<Rightarrow> err = r
       | Rejected t \<Rightarrow>
           err = Some \<lparr>name = ''UnexpectedError'', message = message logoutUser_unexpected\<rparr>)"
    by (cases "signOut p ()") (simp_all add: logoutUser_def logoutUser_unexpected_def)
qed

theorem service_errors_one_shape_witness:
  "loginUser env_throws ''a@b.com'' ''secret'' =
     Fulfilled \<lparr>resp_user = None, resp_session = None, resp_error = Some loginUser_unexpected\<rparr>
   \<and> loginUser env_error ''a@b.com'' ''wrong'' =
     Fulfilled \<lparr>resp_user = None, resp_session = None, resp_error = Some invalid_credentials\<rparr>
   \<and> registerUser env_throws ''a@b.com'' ''secret'' None None =
     Fulfilled \<lparr>resp_user = None, resp_session = None, resp_error = Some registerUser_unexpected\<rparr>
   \<and> logoutUser env_throws = Fulfilled (Some logoutUser_unexpected)
   \<and> logoutUser env_error = Fulfilled (Some invalid_credentials)
   \<and> logoutUser env_ok = Fulfilled None"
  using service_errors_one_shape [of env_throws "''a@b.com''" "''secret''" None None]
    service_errors_one_shape [of env_error "''a@b.com''" "''wrong''" None None]
  by (simp add: loginUser_def registerUser_def logoutUser_def example_defs)

section \<open>The profile metadata sent at registration\<close>

text \<open>
  Claim C10. For every call of \<open>registerUser\<close> and every behaviour of the SDK, the result
  is the one computed from \<open>signUp\<close> applied to the credentials whose metadata has
  \<open>first_name\<close> and \<open>last_name\<close> equal to the given names, or to the empty string when the
  argument is omitted, and \<open>full_name\<close> equal to the two names joined by one space and
  trimmed: this object, and no other, is what \<open>registerUser\<close> hands to the SDK. So
  \<open>full_name\<close> is empty when both names are omitted, it is the trimmed single name when
  only one is given, and it never begins or ends with white space.
\<close>

theorem registerUser_metadata:
  fixes p :: env and email password :: string and firstName lastName :: "string option"
  defines "fn \<equiv> (case firstName of None \<Rightarrow> [] | Some s \<Rightarrow> s)"
    and "ln \<equiv> (case lastName of None \<Rightarrow> [] | Some s \<Rightarrow> s)"
  defines "m \<equiv> \<lparr>first_name = fn, last_name = ln, full_name = trim (fn @ '' '' @ ln)\<rparr>"
  shows "registerUser p email password firstName lastName =
      (case signUp p \<lparr>signup_email = email, signup_password = password,
                      options = \<lparr>options_data = m,
                                 emailRedirectTo = location_origin p @ ''/login''\<rparr>\<rparr> of
         Fulfilled r \<Rightarrow>
           Fulfilled \<lparr>resp_user = data_user (data r), resp_session = data_session (data r),
                      resp_error = error r\<rparr>
       | Rejected t \<Rightarrow>
           Fulfilled \<lparr>resp_user = None, resp_session = None,
                      resp_error = Some registerUser_unexpected\<rparr>)
    \<and> options_data (options (signUp_args (location_origin p) email password firstName lastName)) = m
    \<and> (firstName = None \<and> lastName = None \<longrightarrow> full_name m = [])
    \<and> (lastName = None \<longrightarrow> full_name m = trim fn)
    \<and> (firstName = None \<longrightarrow> full_name m = trim ln)
    \<and> (full_name m \<noteq> [] \<longrightarrow> \<not> is_ws (hd (full_name m)) \<and> \<not> is_ws (last (full_name m)))"
proof -
  have args: "signUp_args (location_origin p) email password firstName lastName =
      \<lparr>signup_email = email, signup_password = password,
       options = \<lparr>options_data = m, emailRedirectTo = location_origin p @ ''/login''\<rparr>\<rparr>"
    by (simp add: m_def fn_def ln_def signUp_args_def or_empty_cases)
  have call: "registerUser p email password firstName lastName =
      (case signUp p \<lparr>signup_email = email, signup_password = password,
                      options = \<lparr>options_data = m,
                                 emailRedirectTo = location_origin p @ ''/login''\<rparr>\<rparr> of
         Fulfilled r \<Rightarrow>
           Fulfilled \<lparr>resp_user = data_user (data r), resp_session = data_session (data r),
                      resp_error = error r\<rparr>
       | Rejected t \<Rightarrow>
           Fulfilled \<lparr>resp_user = None, resp_session = None,
                      resp_error = Some registerUser_unexpected\<rparr>)"
    by (simp only: registerUser_def args)
  have meta: "options_data (options (signUp_args (location_origin p) email password
      firstName lastName)) = m"
    by (simp only: args) simp
  have full: "full_name m = trim (fn @ '' '' @ ln)"
    by (simp add: m_def)
  have right: "lastName = None \<longrightarrow> full_name m = trim fn"
    using trim_space_right [of fn] by (simp add: full ln_def)
  have left: "firstName = None \<longrightarrow> full_name m = trim ln"
    using trim_space_left [of ln] by (simp add: full fn_def)
  have both: "firstName = None \<and> lastName = None \<longrightarrow> full_name m = []"
    using right by (simp add: fn_def trim_def trimStart_def trimEnd_def)
  have ends: "full_name m \<noteq> [] \<longrightarrow> \<not> is_ws (hd (full_name m)) \<and> \<not> is_ws (last (full_name m))"
    using trim_ends [of "fn @ '' '' @ ln"] by (simp only: full) blast
  from call meta both right left ends show ?thesis
    by (intro conjI)
qed

text \<open>
  The witness uses an SDK that echoes what it receives: the user it returns has the
  received \<open>first_name\<close> as its id and the received \<open>full_name\<close> as its email, and the
  session token is the received \<open>last_name\<close>.
\<close>

theorem registerUser_metadata_witness:
  "registerUser env_echo ''a@b.com'' ''secret'' None None =
     Fulfilled \<lparr>resp_user = Some (User [] []),
                resp_session = Some (Session [] (User [] [])), resp_error = None\<rparr>
   \<and> registerUser env_echo ''a@b.com'' ''secret'' (Some ''Juan'') None =
     Fulfilled \<lparr>resp_user = Some (User ''Juan'' ''Juan''),
                resp_session = Some (Session [] (User ''Juan'' ''Juan'')), resp_error = None\<rparr>
   \<and> registerUser env_echo ''a@b.com'' ''secret'' None (Some ''P'') =
     Fulfilled \<lparr>resp_user = Some (User [] ''P''),
                resp_session = Some (Session ''P'' (User [] ''P'')), resp_error = None\<rparr>
   \<and> registerUser env_echo ''a@b.com'' ''secret'' (Some '' Ana'') (Some ''P '') =
     Fulfilled \<lparr>resp_user = Some (User '' Ana'' ''Ana P''),
                resp_session = Some (Session ''P '' (User '' Ana'' ''Ana P'')), resp_error = None\<rparr>
   \<and> options_data (options (signUp_args ''http://localhost:5173'' ''a@b.com'' ''secret''
        (Some ''Juan'') None)) =
     \<lparr>first_name = ''Juan'', last_name = [], full_name = ''Juan''\<rparr>"
  using registerUser_metadata [where p = env_echo and email = "''a@b.com''"
      and password = "''secret''" and firstName = None and lastName = None]
    registerUser_metadata [where p = env_echo and email = "''a@b.com''"
      and password = "''secret''" and firstName = "Some ''Juan''" and lastName = None]
    registerUser_metadata [where p = env_echo and email = "''a@b.com''"
      and password = "''secret''" and firstName = None and lastName = "Some ''P''"]
    registerUser_metadata [where p = env_echo and email = "''a@b.com''"
      and password = "''secret''" and firstName = "Some '' Ana''" and lastName = "Some ''P ''"]
  by (simp add: signUp_args_def or_empty_def trim_def trimStart_def trimEnd_def is_ws_def
        registerUser_def env_echo_def echo_user_def)

section \<open>Consistency of the mirrored state\<close>

text \<open>
  Claim C1. In every state the component reaches from its first render, \<open>user\<close> is
  \<open>session?.user\<close> (\<open>null\<close> without a session) and the \<open>isAuthenticated\<close> of the context
  value is true exactly when \<open>user\<close> is not \<open>null\<close>, being computed from \<open>user\<close> when the
  value is built. Every event either leaves \<open>user\<close> and \<open>session\<close> as they were or is a
  call of \<open>updateAuthState\<close>, which sets both from one session value.
\<close>

theorem user_mirrors_session:
  "user (auth (run tr initial_config)) = optional_user (session (auth (run tr initial_config)))
   \<and> isAuthenticated (context_value (auth (run tr initial_config))) =
       (user (auth (run tr initial_config)) \<noteq> None)
   \<and> isAuthenticated (context_value s) = (user s \<noteq> None)
   \<and> ((user (auth (step e c)) = user (auth c) \<and> session (auth (step e c)) = session (auth c))
        \<or> (\<exists>x. auth (step e c) = updateAuthState x (auth c)))
   \<and> user (updateAuthState x s) = optional_user x \<and> session (updateAuthState x s) = x"
proof -
  have "user (auth initial_config) = optional_user (session (auth initial_config))"
    by (simp add: initial_config_def initial_state_def optional_user_def)
  then have inv: "user (auth (run tr initial_config)) =
      optional_user (session (auth (run tr initial_config)))"
    by (rule run_consistent)
  have derived: "isAuthenticated (context_value t) = (user t \<noteq> None)" for t
    by (cases "user t") (simp_all add: context_value_def to_boolean_def)
  show ?thesis
    using inv derived step_writes_together [of e c]
    by (simp add: updateAuthState_fields)
qed

theorem user_mirrors_session_witness:
  "auth (run [Mount, Call (Login ''a@b.com'' ''secret''), FetchSettled env_error,
              AuthStateChange (Some alice_session), Settle 0 env_ok] initial_config) =
     \<lparr>user = Some alice, session = Some alice_session, isLoading = False\<rparr>
   \<and> isAuthenticated (context_value
        (auth (run [Mount, Call (Login ''a@b.com'' ''secret''), FetchSettled env_error,
                    AuthStateChange (Some alice_session), Settle 0 env_ok] initial_config)))
   \<and> \<not> isAuthenticated (context_value initial_state)"
  using user_mirrors_session
    [of "[Mount, Call (Login ''a@b.com'' ''secret''), FetchSettled env_error,
          AuthStateChange (Some alice_session), Settle 0 env_ok]"
        initial_state "AuthStateChange None" initial_config None]
  by (simp add: state_defs operation_defs system_defs example_defs)

section \<open>The loading flag\<close>

text \<open>
  Around the operations the flag behaves as follows. Calling \<open>login\<close>, \<open>register\<close> or
  \<open>logout\<close> sets \<open>isLoading\<close> to true before the SDK call is awaited. When the call of a
  waiting operation settles, whatever the SDK did (success, reported error, exception),
  \<open>isLoading\<close> is false right after its second part has run.
\<close>

lemma isLoading_around_operations:
  "isLoading (auth (step (Call a) c))
   \<and> a \<in> set (pending (step (Call a) c))
   \<and> (i < length (pending c) \<longrightarrow> \<not> isLoading (auth (step (Settle i p) c)))
   \<and> \<not> isLoading (fst (resume_action p a s))"
  by (simp add: begin_action_frame resume_action_frame)

text \<open>
  As long as the initial fetch does not reject, \<open>isLoading\<close> is true only before the
  effect has run, while the initial fetch is unsettled, or while an operation call is
  waiting.
\<close>

lemma step_loading_resolved:
  assumes "isLoading (auth c) \<longrightarrow> phase c = Rendered \<or> fetching c \<or> pending c \<noteq> []"
    and "\<And>p. e = FetchSettled p \<Longrightarrow> \<exists>r. getSession p () = Fulfilled r"
  shows "isLoading (auth (step e c)) \<longrightarrow>
           phase (step e c) = Rendered \<or> fetching (step e c) \<or> pending (step e c) \<noteq> []"
proof (cases e)
  case Mount
  with assms(1) show ?thesis
    by (cases "phase c = Rendered") (simp_all add: effect_def)
next
  case (FetchSettled p)
  then obtain r where "getSession p () = Fulfilled r"
    using assms(2) by blast
  with FetchSettled assms(1) show ?thesis
    by (cases "fetching c")
       (simp_all add: fetch_settled_def apply_update_def updateAuthState_fields)
next
  case (AuthStateChange x)
  with assms(1) show ?thesis by (simp add: apply_update_def updateAuthState_fields)
next
  case (Call a)
  then show ?thesis by simp
next
  case (Settle i p)
  with assms(1) show ?thesis by (simp add: resume_action_frame)
next
  case Unmount
  with assms(1) show ?thesis
    by (cases "phase c = Mounted") (simp_all add: cleanup_def)
qed

lemma run_loading_resolved:
  assumes "\<forall>p. FetchSettled p \<in> set tr \<longrightarrow> (\<exists>r. getSession p () = Fulfilled r)"
    and "isLoading (auth c) \<longrightarrow> phase c = Rendered \<or> fetching c \<or> pending c \<noteq> []"
  shows "isLoading (auth (run tr c)) \<longrightarrow>
           phase (run tr c) = Rendered \<or> fetching (run tr c) \<or> pending (run tr c) \<noteq> []"
  using assms
proof (induction tr arbitrary: c)
  case Nil
  then show ?case by simp
next
  case (Cons e tr)
  have "\<exists>r. getSession p () = Fulfilled r" if "e = FetchSettled p" for p
    using Cons.prems(1) that by simp
  with Cons.prems(2)
  have now: "isLoading (auth (step e c)) \<longrightarrow>
      phase (step e c) = Rendered \<or> fetching (step e c) \<or> pending (step e c) \<noteq> []"
    by (rule step_loading_resolved)
  have rest: "\<forall>p. FetchSettled p \<in> set tr \<longrightarrow> (\<exists>r. getSession p () = Fulfilled r)"
    using Cons.prems(1) by simp
  have "isLoading (auth (run tr (step e c))) \<longrightarrow>
      phase (run tr (step e c)) = Rendered \<or> fetching (run tr (step e c))
        \<or> pending (run tr (step e c)) \<noteq> []"
    using rest now by (rule Cons.IH)
  then show ?case by simp
qed

text \<open>
  Claim C2, at the input where the code departs from it. The initial \<open>getSession\<close>
  promise rejects and nothing else happens. The effect has run, the initial fetch is
  over and no operation call is waiting, yet \<open>isLoading\<close> is true, and it stays true
  until a change-event arrives or an operation is called and settles. When the fetch
  resolves instead, also with a reported error, \<open>isLoading\<close> is false. The rejection
  has no handler in the component; this is the defect of C6.
\<close>

theorem loading_outlives_rejected_fetch:
  "phase (run [Mount, FetchSettled env_throws] initial_config) = Mounted
   \<and> fetching (run [Mount, FetchSettled env_throws] initial_config) = False
   \<and> pending (run [Mount, FetchSettled env_throws] initial_config) = []
   \<and> isLoading (auth (run [Mount, FetchSettled env_throws] initial_config)) = True
   \<and> isLoading (auth (run [Mount, FetchSettled env_error] initial_config)) = False
   \<and> isLoading (auth (run [Mount, FetchSettled env_ok] initial_config)) = False
   \<and> isLoading (auth (run [Mount, FetchSettled env_throws, Call Logout, Settle 0 env_ok]
                         initial_config)) = False"
  by (simp add: state_defs operation_defs system_defs example_defs)

section \<open>What the operations resolve with\<close>

text \<open>
  Claim C3, as amended. None of \<open>login\<close>, \<open>register\<close>, \<open>logout\<close> rejects. \<open>login\<close> and
  \<open>register\<close> resolve with \<open>{ error }\<close>, where \<open>error\<close> is the error the SDK call resolved
  with (\<open>null\<close> on success) or the fixed \<open>UnexpectedError\<close> when the SDK call threw.
  \<open>logout\<close> resolves with no value: the error of \<open>logoutUser\<close> is dropped.
\<close>

theorem operations_always_resolve:
  "snd (login p email password s) =
     Fulfilled (ErrorResult
       (case signInWithPassword p \<lparr>cred_email = email, cred_password = password\<rparr> of
          Fulfilled r \<Rightarrow> error r
        | Rejected t \<Rightarrow> Some loginUser_unexpected))
   \<and> snd (register p email password firstName lastName s) =
     Fulfilled (ErrorResult
       (case signUp p (signUp_args (location_origin p) email password firstName lastName) of
          Fulfilled r \<Rightarrow> error r
        | Rejected t \<Rightarrow> Some registerUser_unexpected))
   \<and> snd (logout p s) = Fulfilled Undefined"
proof (intro conjI)
  show "snd (login p email password s) =
     Fulfilled (ErrorResult
       (case signInWithPassword p \<lparr>cred_email = email, cred_password = password\<rparr> of
          Fulfilled r \<Rightarrow> error r
        | Rejected t \<Rightarrow> Some loginUser_unexpected))"
    by (cases "signInWithPassword p \<lparr>cred_email = email, cred_password = password\<rparr>")
       (simp_all add: login_def login_resume_def loginUser_def)
  show "snd (register p email password firstName lastName s) =
     Fulfilled (ErrorResult
       (case signUp p (signUp_args (location_origin p) email password firstName lastName) of
          Fulfilled r \<Rightarrow> error r
        | Rejected t \<Rightarrow> Some registerUser_unexpected))"
    by (cases "signUp p (signUp_args (location_origin p) email password firstName lastName)")
       (simp_all add: register_def register_resume_def registerUser_def)
  show "snd (logout p s) = Fulfilled Undefined"
    by (cases "signOut p ()") (simp_all add: logout_def logout_resume_def logoutUser_def)
qed

theorem operations_always_resolve_witness:
  "snd (login env_ok ''a@b.com'' ''secret'' initial_state) = Fulfilled (ErrorResult None)
   \<and> snd (login env_error ''a@b.com'' ''wrong'' initial_state) =
       Fulfilled (ErrorResult (Some invalid_credentials))
   \<and> snd (register env_throws ''a@b.com'' ''secret'' None None initial_state) =
       Fulfilled (ErrorResult (Some registerUser_unexpected))
   \<and> snd (logout env_throws initial_state) = Fulfilled Undefined"
  using operations_always_resolve [of env_ok "''a@b.com''" "''secret''" initial_state None None]
    operations_always_resolve [of env_error "''a@b.com''" "''wrong''" initial_state None None]
    operations_always_resolve [of env_throws "''a@b.com''" "''secret''" initial_state None None]
  by (simp add: example_defs)

text \<open>
  Against C3 as stated: when \<open>signOut\<close> resolves with an error, \<open>logoutUser\<close> reports it,
  but \<open>logout\<close> resolves with \<open>undefined\<close>, not with a result carrying that error.
\<close>

theorem logout_drops_error:
  "logoutUser env_error = Fulfilled (Some invalid_credentials)
   \<and> snd (logout env_error initial_state) = Fulfilled Undefined
   \<and> snd (logout env_error initial_state) \<noteq> Fulfilled (ErrorResult (Some invalid_credentials))"
  by (simp add: logout_def logout_resume_def logoutUser_def env_error_def)

section \<open>The operations write the loading flag only\<close>



section \<open>The initial session fetch\<close>

text \<open>
  When \<open>getSession\<close> resolves, the component applies \<open>data.session\<close> and becomes ready; a
  reported error comes with a \<open>null\<close> session in the SDK's result type.
\<close>

lemma fetch_resolved_ready:
  assumes "getSession p () = Fulfilled r"
  shows "auth (run [Mount, FetchSettled p] initial_config) =
           \<lparr>user = optional_user (session_data r), session = session_data r, isLoading = False\<rparr>"
  using assms by (simp add: system_defs updateAuthState_fields)

text \<open>
  Claim C6, at the input where the code departs from it. The \<open>getSession\<close> promise
  rejects. \<open>getCurrentSession\<close> of the service turns this into \<open>null\<close>, but the component
  calls \<open>getSession\<close> itself with a fulfilment callback only: no update is applied, and
  with no operation waiting and the fetch over, \<open>isLoading\<close> is still true.
\<close>

theorem rejected_fetch_keeps_loading:
  "getSession env_throws () = Rejected (Thrown ''Failed to fetch'')
   \<and> getCurrentSession env_throws = Fulfilled None
   \<and> auth (run [Mount, FetchSettled env_throws] initial_config) =
       \<lparr>user = None, session = None, isLoading = True\<rparr>
   \<and> fetching (run [Mount, FetchSettled env_throws] initial_config) = False
   \<and> updates (run [Mount, FetchSettled env_throws] initial_config) = 0
   \<and> pending (run [Mount, FetchSettled env_throws] initial_config) = []"
  by (simp add: getCurrentSession_def system_defs initial_state_def env_throws_def)

section \<open>Logging out when logged out\<close>

text \<open>
  Claim C7. In a state with no session, \<open>logout\<close> resolves (it does not reject), hands
  no error to its caller, and leaves \<open>session\<close> \<open>null\<close>; doing it a second time gives the
  same state. The same holds in the event system when the SDK emits change-events
  with a \<open>null\<close> session while the call waits.
\<close>

theorem logout_when_logged_out:
  assumes "session s = None" and "session (auth c) = None"
  shows "snd (logout p s) = Fulfilled Undefined
    \<and> session (fst (logout p s)) = None
    \<and> fst (logout q (fst (logout p s))) = fst (logout p s)
    \<and> session (auth (run (Call Logout # map AuthStateChange (replicate n None)
                            @ [Settle (length (pending c)) p]) c)) = None"
proof -
  have state: "fst (logout r t) = t\<lparr>isLoading := False\<rparr>" for r t
  proof -
    have "fst (logout r t) = fst (resume_action r Logout (logout_begin t))"
      by (simp add: logout_def)
    then show ?thesis
      by (simp only: resume_action_frame) (simp add: logout_begin_def setIsLoading_def)
  qed
  have result: "snd (logout p s) = Fulfilled Undefined"
    by (cases "signOut p ()") (simp_all add: logout_def logout_resume_def logoutUser_def)
  have "session (auth (step (Call Logout) c)) = None"
    using assms(2) by (simp only: step_operation_fields)
  then have "session (auth (run (map AuthStateChange (replicate n None))
                             (step (Call Logout) c))) = None"
    by (rule changes_null)
  then have "session (auth (step (Settle (length (pending c)) p)
      (run (map AuthStateChange (replicate n None)) (step (Call Logout) c)))) = None"
    by (simp only: step_operation_fields)
  then have traced: "session (auth (run (Call Logout # map AuthStateChange (replicate n None)
                            @ [Settle (length (pending c)) p]) c)) = None"
    by (simp add: run_append)
  from result traced assms(1) show ?thesis
    by (simp add: state)
qed

theorem logout_when_logged_out_witness:
  "session initial_state = None
   \<and> snd (logout env_error initial_state) = Fulfilled Undefined
   \<and> fst (logout env_error initial_state) = \<lparr>user = None, session = None, isLoading = False\<rparr>
   \<and> auth (run [Mount, FetchSettled env_error, Call Logout, AuthStateChange None, Settle 0 env_ok]
             initial_config) = \<lparr>user = None, session = None, isLoading = False\<rparr>"
  using logout_when_logged_out
    [of initial_state "run [Mount, FetchSettled env_error] initial_config" env_ok env_ok 1]
    logout_when_logged_out
    [of initial_state "run [Mount, FetchSettled env_error] initial_config" env_error env_ok 1]
  by (simp add: state_defs operation_defs system_defs example_defs)

section \<open>Teardown\<close>

text \<open>
  Claim C8. The cleanup of the effect calls \<open>unsubscribe\<close> once, and it runs when the
  component is unmounted: in every reachable configuration the number of \<open>unsubscribe\<close>
  calls is one if the component has been torn down and zero otherwise. After teardown the
  handler is no longer registered, so change-events emitted by the SDK leave \<open>user\<close>,
  \<open>session\<close> and \<open>isLoading\<close> as they were.
\<close>

theorem teardown_unsubscribes_once:
  "unsubscribe_calls (run tr initial_config) =
      (if phase (run tr initial_config) = Unmounted then 1 else 0)
   \<and> (phase (run tr initial_config) = Unmounted \<longrightarrow>
        \<not> subscribed (run tr initial_config)
        \<and> auth (run (map AuthStateChange xs) (run tr initial_config)) = auth (run tr initial_config))
   \<and> unsubscribe_calls (cleanup c) = Suc (unsubscribe_calls c)
   \<and> (phase c = Mounted \<longrightarrow> phase (step Unmount c) = Unmounted)"
proof -
  have "unsubscribe_calls initial_config = (if phase initial_config = Unmounted then 1 else 0)"
    and "phase initial_config \<noteq> Mounted \<longrightarrow> \<not> subscribed initial_config"
    by (simp_all add: initial_config_def)
  then have inv: "unsubscribe_calls (run tr initial_config) =
        (if phase (run tr initial_config) = Unmounted then 1 else 0)
      \<and> (phase (run tr initial_config) \<noteq> Mounted \<longrightarrow> \<not> subscribed (run tr initial_config))"
    by (rule run_teardown)
  have after: "phase (run tr initial_config) = Unmounted \<longrightarrow>
        \<not> subscribed (run tr initial_config)
        \<and> auth (run (map AuthStateChange xs) (run tr initial_config)) = auth (run tr initial_config)"
  proof
    assume "phase (run tr initial_config) = Unmounted"
    with inv have off: "\<not> subscribed (run tr initial_config)" by simp
    then have "run (map AuthStateChange xs) (run tr initial_config) = run tr initial_config"
      by (rule changes_ignored)
    with off show "\<not> subscribed (run tr initial_config)
        \<and> auth (run (map AuthStateChange xs) (run tr initial_config)) = auth (run tr initial_config)"
      by simp
  qed
  from inv after show ?thesis
    by (simp add: cleanup_def)
qed

theorem teardown_unsubscribes_once_witness:
  "phase (run [Mount, AuthStateChange (Some alice_session), Unmount] initial_config) = Unmounted
   \<and> unsubscribe_calls (run [Mount, AuthStateChange (Some alice_session), Unmount] initial_config) = 1
   \<and> unsubscribe_calls (run [Mount, AuthStateChange (Some alice_session), Unmount, Unmount]
        initial_config) = 1
   \<and> unsubscribe_calls (run [Mount, AuthStateChange (Some alice_session)] initial_config) = 0
   \<and> auth (run [Mount, AuthStateChange (Some alice_session), Unmount, AuthStateChange None]
             initial_config) =
       \<lparr>user = Some alice, session = Some alice_session, isLoading = False\<rparr>"
  using teardown_unsubscribes_once
    [of "[Mount, AuthStateChange (Some alice_session), Unmount]" "[None]"
        "run [Mount, AuthStateChange (Some alice_session)] initial_config"]
  by (simp add: state_defs system_defs example_defs)

section \<open>The initial fetch and the change-events race\<close>

text \<open>
  Claim C9. While the handler is registered and the initial fetch has not settled, a
  change-event is applied at once. When the fetch then resolves, its session replaces
  the event's; when the fetch resolves first and the event follows, the event's session
  replaces the fetch's. In both orders \<open>session\<close> and \<open>user\<close> end as the later of the two
  set them.
\<close>

theorem last_write_wins:
  assumes "subscribed c" and "fetching c" and "getSession p () = Fulfilled r"
  shows "session (auth (step (AuthStateChange x) c)) = x
    \<and> user (auth (step (AuthStateChange x) c)) = optional_user x
    \<and> fetching (step (AuthStateChange x) c)
    \<and> session (auth (run [AuthStateChange x, FetchSettled p] c)) = session_data r
    \<and> user (auth (run [AuthStateChange x, FetchSettled p] c)) = optional_user (session_data r)
    \<and> session (auth (run [FetchSettled p, AuthStateChange x] c)) = x
    \<and> user (auth (run [FetchSettled p, AuthStateChange x] c)) = optional_user x"
  using assms by (simp add: apply_update_def fetch_settled_def updateAuthState_fields)

theorem last_write_wins_witness:
  "subscribed (step Mount initial_config) \<and> fetching (step Mount initial_config)
   \<and> auth (run [Mount, AuthStateChange None, FetchSettled env_ok] initial_config) =
       \<lparr>user = Some alice, session = Some alice_session, isLoading = False\<rparr>
   \<and> auth (run [Mount, FetchSettled env_ok, AuthStateChange None] initial_config) =
       \<lparr>user = None, session = None, isLoading = False\<rparr>"
  using last_write_wins
    [of "step Mount initial_config" env_ok
        "\<lparr>session_data = Some alice_session, session_error = None\<rparr>" None]
  by (simp add: state_defs system_defs example_defs)


end
